theory Spec2Isabelle
  imports Complex_Main
begin

section \<open>JavaScript values shared by the models\<close>

text \<open>
  JavaScript numbers are IEEE doubles; the models below idealise them as real numbers.
  The properties proved about them only use order, clamping and exact products, never a
  rounding behaviour.
\<close>

type_synonym number = real

text \<open>A primitive value read from a JSON attribute or from a property that may be missing.\<close>

datatype jsprim = Undefined | Null | Str string

text \<open>JavaScript truthiness of such a value: \<open>undefined\<close>, \<open>null\<close> and the empty string are falsy.\<close>

fun truthy :: "jsprim \<Rightarrow> bool" where
  "truthy Undefined = False"
| "truthy Null = False"
| "truthy (Str s) = (s \<noteq> [])"

text \<open>The exceptions the models distinguish.\<close>

datatype jsError = TypeError

text \<open>\<open>Number.prototype.toString()\<close> on a non-negative integer: its decimal digits.\<close>

definition digitChar :: "nat \<Rightarrow> char" where
  "digitChar d = ''0123456789'' ! d"

fun natToString :: "nat \<Rightarrow> string" where
  "natToString n = (if n < 10 then [digitChar n] else natToString (n div 10) @ [digitChar (n mod 10)])"

declare natToString.simps [simp del]


section \<open>Transit tracker: prediction entries (TheBigT/js/main.js and the earlier single-file version)\<close>

text \<open>
  The part of a prediction record's \<open>attributes\<close> that \<open>getPredictionMsg\<close> reads.
  The MBTA API sends each time as \<open>null\<close> or as an ISO-8601 string.
\<close>

record predictionJson =
  arrival_time :: jsprim
  departure_time :: jsprim

text \<open>The getters the class defines. The departure getter is spelled \<open>deparatureTime\<close>.\<close>

definition arrivalTime :: "predictionJson \<Rightarrow> jsprim" where
  "arrivalTime p = arrival_time p"

definition deparatureTime :: "predictionJson \<Rightarrow> jsprim" where
  "deparatureTime p = departure_time p"

text \<open>
  \<open>this.departureTime\<close>: the class has no member of that name (neither a getter nor a field
  set by the constructor), so the read yields \<open>undefined\<close> whatever the record holds.
\<close>

definition departureTime :: "predictionJson \<Rightarrow> jsprim" where
  "departureTime p = Undefined"

text \<open>
  A \<open>Date\<close> object as \<open>dateToHHMMString\<close> sees it: the local-time fields returned by
  \<open>getHours\<close>, \<open>getMinutes\<close> and \<open>getSeconds\<close>, or an invalid date, whose fields are all
  \<open>NaN\<close>.
\<close>

datatype jsdate = InvalidDate | LocalTime nat nat nat

text \<open>
  \<open>dateToHHMMString(time, includeSeconds)\<close>. The argument is \<open>None\<close> for a falsy value.
  On an invalid date every comparison with \<open>NaN\<close> is false and \<open>NaN.toString()\<close> has three
  characters, so no padding is added.
\<close>

fun dateToHHMMString :: "jsdate option \<Rightarrow> bool \<Rightarrow> string" where
  "dateToHHMMString None includeSeconds = ''''"
| "dateToHHMMString (Some InvalidDate) includeSeconds =
     ''NaN'' @ '':'' @ ''NaN'' @ (if includeSeconds then '':'' @ ''NaN'' else '''') @ '' AM''"
| "dateToHHMMString (Some (LocalTime h m s)) includeSeconds =
     (let (hours, suffix) =
            (if h > 12 then (h - 12, '' PM'')
             else if h = 12 then (h, '' PM'')
             else (h, '' AM''));
          hoursStr = natToString hours;
          hoursStr = (if length hoursStr = 1 then '' '' @ hoursStr else hoursStr);
          minutes = natToString m;
          minutes = (if length minutes = 1 then ''0'' @ minutes else minutes);
          seconds =
            (if includeSeconds then
               (let secs = natToString s;
                    secs = (if length secs = 1 then ''0'' @ secs else secs)
                in '':'' @ secs)
             else '''')
      in hoursStr @ '':'' @ minutes @ seconds @ suffix)"

text \<open>
  \<open>PredictionEntry.getPredictionMsg()\<close>, the same text in both versions. \<open>newDate\<close> is the
  runtime's \<open>new Date(value)\<close>, taken as a parameter.
\<close>

definition getPredictionMsg :: "(jsprim \<Rightarrow> jsdate) \<Rightarrow> predictionJson \<Rightarrow> string" where
  "getPredictionMsg newDate p =
     (let arrival = arrivalTime p;
          departure = departureTime p
      in if \<not> truthy arrival \<and> \<not> truthy departure then ''''
         else if arrival = departure then
           dateToHHMMString (Some (newDate arrival)) True @ '' DEP''
         else
           (let msg = '''';
                msg = (if truthy arrival then
                         (let msg = msg @ dateToHHMMString (Some (newDate arrival)) True @ '' ARR''
                          in if truthy departure then msg @ ''  '' else msg)
                       else msg);
                msg = (if truthy departure then
                         msg @ dateToHHMMString (Some (newDate departure)) True @ '' DEP''
                       else msg)
            in msg))"


section \<open>Numeric helper of the simulator\<close>

text \<open>
  Modelled from the spec: \<open>LBMath.clamp(val, min, max)\<close>. The lbmath module is not among
  the sources; the spec says the value is clamped into \<open>[min, max]\<close>.
\<close>

definition clamp :: "number \<Rightarrow> number \<Rightarrow> number \<Rightarrow> number" where
  "clamp val lo hi = min (max val lo) hi"


section \<open>Camera controller: zoom (LBUI3d.CameraController)\<close>

text \<open>
  The camera a controller drives, as far as \<open>setZoom\<close> touches it: whether it is a
  perspective camera, its \<open>zoom\<close>, and how often \<open>updateProjectionMatrix\<close> has run.
\<close>

record camera =
  isPerspectiveCamera :: bool
  zoom :: number
  projectionUpdates :: nat

text \<open>
  The zoom state of a controller. Only the constructor and \<open>setZoom\<close> write \<open>zoomScale\<close>;
  nothing writes the two bounds after construction. The constructor sets no \<open>camera\<close>
  property: it is \<open>None\<close> until the owner of the controller assigns one.
\<close>

record cameraController =
  zoomScale :: number
  minZoomScale :: number
  maxZoomScale :: number
  camera :: "camera option"

text \<open>The constructor's zoom fields.\<close>

definition newCameraController :: cameraController where
  "newCameraController =
     \<lparr>zoomScale = 1, minZoomScale = 0.025, maxZoomScale = 150, camera = None\<rparr>"

text \<open>
  \<open>setZoom(zoom)\<close>. When the clamped value differs from \<open>zoomScale\<close>, the function first
  reads \<open>this.camera.isPerspectiveCamera\<close>, which throws when no camera is set, before
  anything is assigned.
\<close>

definition setZoom :: "cameraController \<Rightarrow> number \<Rightarrow> jsError + cameraController" where
  "setZoom c z =
     (let z = clamp z (minZoomScale c) (maxZoomScale c)
      in if z \<noteq> zoomScale c then
           (case camera c of
              None \<Rightarrow> Inl TypeError
            | Some cam \<Rightarrow>
                (let cam = (if isPerspectiveCamera cam
                            then cam\<lparr>zoom := z, projectionUpdates := Suc (projectionUpdates cam)\<rparr>
                            else cam)
                 in Inr (c\<lparr>camera := Some cam, zoomScale := z\<rparr>)))
         else Inr c)"

text \<open>\<open>handleMouseWheel(event)\<close>, given the event's \<open>deltaY\<close>.\<close>

definition handleMouseWheel :: "cameraController \<Rightarrow> number \<Rightarrow> jsError + cameraController" where
  "handleMouseWheel c deltaY =
     (if deltaY < 0 then setZoom c (zoomScale c * 0.75)
      else if deltaY > 0 then setZoom c (zoomScale c * 1.5)
      else Inr c)"

text \<open>
  A finite sequence of wheel events. Each event runs the handler once; an exception ends
  that event only and, since \<open>setZoom\<close> has assigned nothing when it throws, leaves the
  controller as it was.
\<close>

fun handleMouseWheels :: "cameraController \<Rightarrow> number list \<Rightarrow> cameraController" where
  "handleMouseWheels c [] = c"
| "handleMouseWheels c (deltaY # rest) =
     (case handleMouseWheel c deltaY of
        Inl err \<Rightarrow> handleMouseWheels c rest
      | Inr c' \<Rightarrow> handleMouseWheels c' rest)"


section \<open>Propulsor (LBSailSim.Propulsor)\<close>

datatype vector3 = Vector3 (vx: number) (vy: number) (vz: number)

text \<open>A 4x4 matrix by its \<open>elements\<close> array (column-major), as a function of the index.\<close>

type_synonym matrix4 = "nat \<Rightarrow> number"

text \<open>\<open>Vector3.multiplyScalar\<close> and \<open>Vector3.length\<close> of the three.js library.\<close>

definition multiplyScalar :: "vector3 \<Rightarrow> number \<Rightarrow> vector3" where
  "multiplyScalar v s = Vector3 (vx v * s) (vy v * s) (vz v * s)"

definition vlength :: "vector3 \<Rightarrow> number" where
  "vlength v = sqrt (vx v * vx v + vy v * vy v + vz v * vz v)"

text \<open>
  Modelled from the spec: \<open>Vector3.applyMatrix4Rotation(m)\<close> of the lbgeometry module, which
  is not among the sources. The spec says the direction is rotated by the attachment's
  world rotation: the upper-left 3x3 block of the transform is applied.
\<close>

definition applyMatrix4Rotation :: "vector3 \<Rightarrow> matrix4 \<Rightarrow> vector3" where
  "applyMatrix4Rotation v e =
     Vector3 (e 0 * vx v + e 4 * vy v + e 8 * vz v)
             (e 1 * vx v + e 5 * vy v + e 9 * vz v)
             (e 2 * vx v + e 6 * vy v + e 10 * vz v)"

text \<open>
  Modelled from the spec: \<open>Vector3.applyMatrix4(m)\<close> (not among the sources), the affine
  transform of a point: the force acts at the attachment's local origin.
\<close>

definition applyMatrix4 :: "vector3 \<Rightarrow> matrix4 \<Rightarrow> vector3" where
  "applyMatrix4 v e =
     Vector3 (e 0 * vx v + e 4 * vy v + e 8 * vz v + e 12)
             (e 1 * vx v + e 5 * vy v + e 9 * vz v + e 13)
             (e 2 * vx v + e 6 * vy v + e 10 * vz v + e 14)"

text \<open>
  The propulsor's own fields, the world transform of its coordinate system, and the
  world forces applied to it so far. \<open>forceDir\<close> is \<open>None\<close> once \<open>destroy\<close> has nulled it.
\<close>

record propulsor =
  forceMag :: number
  forceDir :: "vector3 option"
  maxForce :: number
  minForce :: number
  worldXfrm :: matrix4
  worldForces :: "(vector3 \<times> vector3) list"

text \<open>
  The constructor: \<open>maxForce || 10\<close> and \<open>minForce || 0\<close>, so an omitted or zero argument
  takes the default.
\<close>

definition newPropulsor :: "matrix4 \<Rightarrow> number option \<Rightarrow> number option \<Rightarrow> propulsor" where
  "newPropulsor xfrm maxF minF =
     \<lparr>forceMag = 0, forceDir = Some (Vector3 1 0 0),
      maxForce = (case maxF of None \<Rightarrow> 10 | Some m \<Rightarrow> if m = 0 then 10 else m),
      minForce = (case minF of None \<Rightarrow> 0 | Some m \<Rightarrow> if m = 0 then 0 else m),
      worldXfrm = xfrm, worldForces = []\<rparr>"

text \<open>
  Modelled from the spec: \<open>RigidBody.addWorldForce(force, pos)\<close> of the lbphysics module
  (not among the sources) applies a world-space force at a world position; the model
  records each application.
\<close>

definition addWorldForce :: "propulsor \<Rightarrow> vector3 \<Rightarrow> vector3 \<Rightarrow> propulsor" where
  "addWorldForce p force pos = p\<lparr>worldForces := worldForces p @ [(force, pos)]\<rparr>"

text \<open>
  \<open>updateForce(dt)\<close>. Copying a nulled \<open>forceDir\<close> into the working vector reads a property
  of \<open>null\<close>, a \<open>TypeError\<close>.
\<close>

definition updateForce :: "propulsor \<Rightarrow> jsError + propulsor" where
  "updateForce p =
     (let mag = clamp (forceMag p) (minForce p) (maxForce p)
      in if mag = 0 then Inr p
         else (case forceDir p of
                 None \<Rightarrow> Inl TypeError
               | Some dir \<Rightarrow>
                   (let force = dir;
                        force = multiplyScalar force mag;
                        force = applyMatrix4Rotation force (worldXfrm p);
                        pos = Vector3 0 0 0;
                        pos = applyMatrix4 pos (worldXfrm p)
                    in Inr (addWorldForce p force pos))))"


section \<open>Multi-load coordinator (LBAssets.MultiLoadCoordinator)\<close>

datatype loadState = NOT_LOADED | LOADING | LOAD_COMPLETE | LOAD_FAILED

text \<open>
  The two callbacks given to \<open>setup\<close> (\<open>setupCoordinator\<close> below), named by the role they
  are stored under.
\<close>

datatype callbackName = OnComplete | OnError

text \<open>
  The coordinator's fields: \<open>priv_loaderCount\<close> is the field \<open>_loaderCount\<close>; \<open>onComplete\<close>
  and \<open>onError\<close> say whether a callback is currently stored; \<open>invoked\<close> lists the calls made
  to the stored callbacks, oldest first.
\<close>

record multiLoadCoordinator =
  priv_loaderCount :: int
  loadState :: loadState
  onComplete :: bool
  onError :: bool
  invoked :: "callbackName list"

definition newMultiLoadCoordinator :: multiLoadCoordinator where
  "newMultiLoadCoordinator =
     \<lparr>priv_loaderCount = 0, loadState = NOT_LOADED, onComplete = False, onError = False,
      invoked = []\<rparr>"

definition setupCoordinator :: "multiLoadCoordinator \<Rightarrow> bool \<Rightarrow> bool \<Rightarrow> multiLoadCoordinator" where
  "setupCoordinator c hasOnComplete hasOnError = c\<lparr>onComplete := hasOnComplete, onError := hasOnError\<rparr>"

definition beginLoadCalls :: "multiLoadCoordinator \<Rightarrow> multiLoadCoordinator" where
  "beginLoadCalls c = c\<lparr>priv_loaderCount := priv_loaderCount c + 1\<rparr>"

definition finishLoad :: "multiLoadCoordinator \<Rightarrow> multiLoadCoordinator" where
  "finishLoad c =
     (let c = (if loadState c \<noteq> LOAD_FAILED then
                 (let c = c\<lparr>loadState := LOAD_COMPLETE\<rparr>
                  in if onComplete c then c\<lparr>invoked := invoked c @ [OnComplete]\<rparr> else c)
               else if onError c then c\<lparr>invoked := invoked c @ [OnError]\<rparr>
               else c)
      in c\<lparr>onComplete := False, onError := False\<rparr>)"

definition markLoadCompleted :: "multiLoadCoordinator \<Rightarrow> multiLoadCoordinator" where
  "markLoadCompleted c =
     (let c = c\<lparr>priv_loaderCount := priv_loaderCount c - 1\<rparr>
      in if priv_loaderCount c = 0 then finishLoad c else c)"

text \<open>
  \<open>this.loaderCount\<close>, without the underscore, as \<open>_markLoadFailed\<close> reads it: neither the
  constructor nor the prototype defines a property of that name, so the read yields
  \<open>undefined\<close> (\<open>None\<close>), whatever the state.
\<close>

definition loaderCount :: "multiLoadCoordinator \<Rightarrow> int option" where
  "loaderCount c = None"

definition markLoadFailed :: "multiLoadCoordinator \<Rightarrow> multiLoadCoordinator" where
  "markLoadFailed c =
     (let c = c\<lparr>priv_loaderCount := priv_loaderCount c - 1\<rparr>;
          c = c\<lparr>loadState := LOAD_FAILED\<rparr>
      in if loaderCount c = Some 0 then finishLoad c else c)"

definition endLoadCalls :: "multiLoadCoordinator \<Rightarrow> multiLoadCoordinator" where
  "endLoadCalls c = markLoadCompleted c"

text \<open>
  \<open>getOnLoadFunction\<close> counts the unit and returns a handler that runs \<open>_markLoadCompleted\<close>;
  \<open>getOnErrorFunction\<close> changes nothing and returns a handler that runs \<open>_markLoadFailed\<close>.
\<close>

definition getOnLoadFunction :: "multiLoadCoordinator \<Rightarrow> multiLoadCoordinator" where
  "getOnLoadFunction c = c\<lparr>priv_loaderCount := priv_loaderCount c + 1, loadState := LOADING\<rparr>"

definition getOnErrorFunction :: "multiLoadCoordinator \<Rightarrow> multiLoadCoordinator" where
  "getOnErrorFunction c = c"

text \<open>
  What happens to a coordinator during a session: the bracket calls, the registration of
  one load unit (both handler getters, as in the class comment's usage), and a registered
  unit completing through its load handler or through its error handler.
\<close>

datatype loadEvent = BeginLoadCalls | RegisterUnit | EndLoadCalls | UnitLoaded | UnitFailed

fun loadStep :: "multiLoadCoordinator \<Rightarrow> loadEvent \<Rightarrow> multiLoadCoordinator" where
  "loadStep c BeginLoadCalls = beginLoadCalls c"
| "loadStep c RegisterUnit = getOnErrorFunction (getOnLoadFunction c)"
| "loadStep c EndLoadCalls = endLoadCalls c"
| "loadStep c UnitLoaded = markLoadCompleted c"
| "loadStep c UnitFailed = markLoadFailed c"

definition loadSession :: "loadEvent list \<Rightarrow> multiLoadCoordinator" where
  "loadSession evs = foldl loadStep (setupCoordinator newMultiLoadCoordinator True True) evs"


section \<open>Transit tracker v2: batching of prediction fetches (processTripIdsToFetch)\<close>

definition tripIdsPerFetch :: nat where
  "tripIdsPerFetch = 10"

text \<open>
  The first loop of \<open>processTripIdsToFetch\<close>, over the queued layer entries in the set's
  insertion order. The state is \<open>vehicleEntryBatches\<close> and whether \<open>thisBatch\<close> is non-null;
  when it is, it refers to the last batch pushed.
\<close>

fun batchStep :: "'a list list \<times> bool \<Rightarrow> 'a \<Rightarrow> 'a list list \<times> bool" where
  "batchStep (vehicleEntryBatches, hasThisBatch) layerEntry =
     (let vehicleEntryBatches =
            (if \<not> hasThisBatch then vehicleEntryBatches @ [[]] else vehicleEntryBatches);
          thisBatch = last vehicleEntryBatches @ [layerEntry];
          vehicleEntryBatches = butlast vehicleEntryBatches @ [thisBatch]
      in (vehicleEntryBatches, \<not> (length thisBatch > tripIdsPerFetch)))"

definition makeBatches :: "'a list \<Rightarrow> 'a list list" where
  "makeBatches queued = fst (foldl batchStep ([], False) queued)"

text \<open>
  \<open>processTripIdsToFetch\<close> up to the fetches it issues: given the queue and each entry's trip
  id, the trip-id list of every \<open>fetchPredictionByTripId\<close> call, in order, and the queue
  afterwards. An empty queue returns at once.
\<close>

definition processTripIdsToFetch :: "('a \<Rightarrow> string) \<Rightarrow> 'a list \<Rightarrow> string list list \<times> 'a list" where
  "processTripIdsToFetch tripId vehiclePredictionsToFetch =
     (if vehiclePredictionsToFetch = [] then ([], vehiclePredictionsToFetch)
      else (map (map tripId) (makeBatches vehiclePredictionsToFetch), []))"


section \<open>Transit tracker v2: route categories at startup\<close>

text \<open>
  One element of \<open>processRoutesResultForIdsAndNames\<close>'s result; \<open>routeId\<close> is its \<open>id\<close>
  property and \<open>routeType\<close> its \<open>type\<close>.
\<close>

record routeIdAndName =
  routeId :: string
  shortName :: string
  longName :: string
  routeType :: int

text \<open>
  A member of the \<open>activeRouteIds\<close> set: a route id (a string), or an id-and-name object.
  \<open>Set\<close> compares strings by value and objects by identity, so a string is never equal
  to an object; two objects are told apart by their contents here, which agrees with
  identity as long as no two route objects carry the same fields.
\<close>

datatype setMember = IdMember string | ObjectMember routeIdAndName

text \<open>A \<open>Set\<close> in insertion order: \<open>add\<close>, \<open>has\<close>, and \<open>new Set(iterable)\<close>.\<close>

definition setAdd :: "setMember list \<Rightarrow> setMember \<Rightarrow> setMember list" where
  "setAdd s m = (if m \<in> set s then s else s @ [m])"

definition setHas :: "setMember list \<Rightarrow> setMember \<Rightarrow> bool" where
  "setHas s m = (m \<in> set s)"

definition newSet :: "setMember list \<Rightarrow> setMember list" where
  "newSet ms = foldl setAdd [] ms"

record uiRouteCategory =
  idBase :: string
  routeIdsAndNames :: "routeIdAndName list"
  activeRouteIds :: "setMember list"
  isLoadedFromStorage :: bool

definition newUIRouteCategory :: "string \<Rightarrow> uiRouteCategory" where
  "newUIRouteCategory base =
     \<lparr>idBase = base, routeIdsAndNames = [], activeRouteIds = [], isLoadedFromStorage = False\<rparr>"

definition getStorageKey :: "uiRouteCategory \<Rightarrow> string" where
  "getStorageKey cat = ''uiRouteCategory_'' @ idBase cat"

text \<open>
  What \<open>JSON.parse\<close> makes of a stored item, as far as \<open>loadFromStorage\<close> tells the cases
  apart: the parse throws; the value has no truthy \<open>activeRouteIds\<close> (or is \<open>null\<close>, where
  the property read throws); the property is truthy but has no \<open>forEach\<close>; or it is an
  array with the given elements.
\<close>

datatype storedValue =
  Unparsable
  | WithoutActiveRouteIds
  | ActiveRouteIdsNotArray
  | ActiveRouteIdsArray "setMember list"

text \<open>
  \<open>loadFromStorage(storage)\<close>: \<open>storage\<close> maps a key to its item, \<open>jsonParse\<close> is the runtime's
  \<open>JSON.parse\<close>. Every exception is caught and ignored; the set has already been cleared
  when \<open>forEach\<close> is missing.
\<close>

definition loadFromStorage ::
  "(string \<Rightarrow> string option) \<Rightarrow> (string \<Rightarrow> storedValue) \<Rightarrow> uiRouteCategory \<Rightarrow> uiRouteCategory" where
  "loadFromStorage storage jsonParse cat =
     (let cat = cat\<lparr>isLoadedFromStorage := False\<rparr>
      in case storage (getStorageKey cat) of
           None \<Rightarrow> cat
         | Some v \<Rightarrow>
             (if v = [] then cat
              else (case jsonParse v of
                      Unparsable \<Rightarrow> cat
                    | WithoutActiveRouteIds \<Rightarrow> cat
                    | ActiveRouteIdsNotArray \<Rightarrow> cat\<lparr>activeRouteIds := []\<rparr>
                    | ActiveRouteIdsArray ids \<Rightarrow>
                        cat\<lparr>activeRouteIds := foldl setAdd [] ids, isLoadedFromStorage := True\<rparr>)))"

definition CAT_SUBWAY :: nat where "CAT_SUBWAY = 0"

definition CAT_BUS :: nat where "CAT_BUS = 1"

definition CAT_COMMUTER_RAIL :: nat where "CAT_COMMUTER_RAIL = 2"

definition CAT_FERRY :: nat where "CAT_FERRY = 3"

definition uiRouteCategories :: "uiRouteCategory list" where
  "uiRouteCategories =
     [newUIRouteCategory ''subway'', newUIRouteCategory ''bus'',
      newUIRouteCategory ''commuterRail'', newUIRouteCategory ''ferry'']"

definition setRouteIdsAndNames ::
  "uiRouteCategory list \<Rightarrow> nat \<Rightarrow> routeIdAndName list \<Rightarrow> uiRouteCategory list" where
  "setRouteIdsAndNames cats i rs = cats[i := (cats ! i)\<lparr>routeIdsAndNames := rs\<rparr>]"

text \<open>
  The startup sequence up to \<open>setupUI\<close>: the four categories are restored from storage, the
  route lists fetched for light rail, heavy rail, commuter rail, bus and ferry are stored,
  every list is sorted (\<open>sortRoutes\<close> is \<open>Array.prototype.sort\<close> with \<open>routeIdAndNameSort\<close>),
  and the subway category is seeded when it was not restored. The seeding statement is
  \<open>new Set(routeIdsAndNames)\<close>: the set's members are the list's objects.
\<close>

definition startupCategories ::
  "(string \<Rightarrow> string option) \<Rightarrow> (string \<Rightarrow> storedValue) \<Rightarrow>
   (routeIdAndName list \<Rightarrow> routeIdAndName list) \<Rightarrow>
   routeIdAndName list \<Rightarrow> routeIdAndName list \<Rightarrow> routeIdAndName list \<Rightarrow>
   routeIdAndName list \<Rightarrow> routeIdAndName list \<Rightarrow> uiRouteCategory list" where
  "startupCategories storage jsonParse sortRoutes lightRail heavyRail commuterRail bus ferry =
     (let cats = map (loadFromStorage storage jsonParse) uiRouteCategories;
          cats = setRouteIdsAndNames cats CAT_SUBWAY lightRail;
          cats = setRouteIdsAndNames cats CAT_SUBWAY
                   (routeIdsAndNames (cats ! CAT_SUBWAY) @ heavyRail);
          cats = setRouteIdsAndNames cats CAT_COMMUTER_RAIL commuterRail;
          cats = setRouteIdsAndNames cats CAT_BUS bus;
          cats = setRouteIdsAndNames cats CAT_FERRY ferry;
          cats = map (\<lambda>cat. cat\<lparr>routeIdsAndNames := sortRoutes (routeIdsAndNames cat)\<rparr>) cats
      in if \<not> isLoadedFromStorage (cats ! CAT_SUBWAY) then
           cats[CAT_SUBWAY := (cats ! CAT_SUBWAY)
                  \<lparr>activeRouteIds := newSet (map ObjectMember (routeIdsAndNames (cats ! CAT_SUBWAY)))\<rparr>]
         else cats)"

text \<open>
  The "show all" menu action of \<open>setupRoutesMenu\<close>, which fills the set with the \<open>id\<close> of
  every route of the category.
\<close>

definition showAllRoutes :: "uiRouteCategory \<Rightarrow> uiRouteCategory" where
  "showAllRoutes cat =
     cat\<lparr>activeRouteIds := foldl setAdd [] (map (\<lambda>r. IdMember (routeId r)) (routeIdsAndNames cat))\<rparr>"


section \<open>Sailing environment: the boat catalog (LBSailSim.Env)\<close>

text \<open>
  A plain object used as a dictionary, as an association list in insertion order with
  one pair per key. Assigning to a property replaces the value of an existing key in
  place and appends a new key. Keys are taken to be ordinary names: the members inherited
  from \<open>Object.prototype\<close> are not modelled.
\<close>

fun objSet :: "(string \<times> 'v) list \<Rightarrow> string \<Rightarrow> 'v \<Rightarrow> (string \<times> 'v) list" where
  "objSet [] k v = [(k, v)]"
| "objSet ((k', v') # rest) k v =
     (if k' = k then (k, v) # rest else (k', v') # objSet rest k v)"

text \<open>The string a value becomes when it is used as a property key.\<close>

fun propertyKey :: "jsprim \<Rightarrow> string" where
  "propertyKey Undefined = ''undefined''"
| "propertyKey Null = ''null''"
| "propertyKey (Str s) = s"

text \<open>
  A boat data object of the boat-list file: its \<open>typeName\<close> and, when the \<open>instances\<close>
  property is present, the \<open>name\<close> of each instance data object.
\<close>

record boatData =
  typeName :: string
  instances :: "string list option"

text \<open>
  A catalog slot: \<open>instanceData\<close> is the instance data object (by its name) when the slot
  was made from one; \<open>boatInstance\<close> is \<open>null\<close> (\<open>None\<close>) or a reference to a boat object.
\<close>

record boatEntry =
  instanceData :: "string option"
  boatInstance :: "nat option"

text \<open>
  A boat object, as far as the catalog code reads and writes it. \<open>vesselTypeName\<close> is its
  \<open>typeName\<close> property, which only the vessel module sets.
\<close>

record vessel =
  vesselTypeName :: jsprim
  boatName :: jsprim
  vesselName :: jsprim
  boatInstanceData :: "string option"
  destroyed :: bool

datatype notification = BoatCheckedOut nat | BoatReturned nat

text \<open>
  The environment: the two catalog objects, the boat objects created so far (a reference
  is an index into \<open>vessels\<close>), and the notifications sent to the registered callbacks.
\<close>

record env =
  boatDatas :: "(string \<times> boatData) list"
  boatsByType :: "(string \<times> (string \<times> boatEntry) list) list"
  vessels :: "vessel list"
  notifications :: "notification list"

definition newEnv :: env where
  "newEnv = \<lparr>boatDatas = [], boatsByType = [], vessels = [], notifications = []\<rparr>"

definition loadBoatData :: "env \<Rightarrow> boatData \<Rightarrow> env" where
  "loadBoatData e data =
     (let boatsForType =
            (case instances data of
               Some insts \<Rightarrow>
                 foldl (\<lambda>boats inst. objSet boats inst \<lparr>instanceData = Some inst, boatInstance = None\<rparr>)
                   [] insts
             | None \<Rightarrow> [(typeName data, \<lparr>instanceData = None, boatInstance = None\<rparr>)])
      in e\<lparr>boatDatas := objSet (boatDatas e) (typeName data) data,
            boatsByType := objSet (boatsByType e) (typeName data) boatsForType\<rparr>)"

definition loadBoatDatas :: "env \<Rightarrow> boatData list \<Rightarrow> env" where
  "loadBoatDatas e boats = foldl loadBoatData e boats"

definition getBoatData :: "env \<Rightarrow> string \<Rightarrow> boatData option" where
  "getBoatData e tn = map_of (boatDatas e) tn"

text \<open>An optional string argument is falsy when it is omitted or empty.\<close>

definition orElse :: "string option \<Rightarrow> string \<Rightarrow> string" where
  "orElse arg dflt = (case arg of None \<Rightarrow> dflt | Some s \<Rightarrow> if s = [] then dflt else s)"

definition isBoatAvailable :: "env \<Rightarrow> string \<Rightarrow> string option \<Rightarrow> bool" where
  "isBoatAvailable e tn bn =
     (case getBoatData e tn of
        None \<Rightarrow> False
      | Some boatData \<Rightarrow>
          (case map_of (boatsByType e) tn of
             None \<Rightarrow> False
           | Some boatsOfType \<Rightarrow>
               (let bn = orElse bn tn
                in case map_of boatsOfType bn of
                     None \<Rightarrow> False
                   | Some boatEntry \<Rightarrow> boatInstance boatEntry = None)))"

text \<open>
  \<open>_createBoatInstance\<close>. \<open>createFromData\<close> is \<open>LBSailSim.Vessel.createFromData\<close>, which is not
  among the sources and is a parameter: it yields the new boat object, or \<open>None\<close> for a
  falsy result, on which the assignment to \<open>boat.boatName\<close> throws.
\<close>

definition createBoatInstance ::
  "(boatData \<Rightarrow> vessel option) \<Rightarrow> string \<Rightarrow> string \<Rightarrow> boatData \<Rightarrow> jsError + vessel" where
  "createBoatInstance createFromData tn bn data =
     (case createFromData data of
        None \<Rightarrow> Inl TypeError
      | Some boat \<Rightarrow> Inr (boat\<lparr>boatName := Str bn\<rparr>))"

text \<open>
  \<open>checkoutBoat(typeName, boatName)\<close>; the position and orientation arguments only move
  the new boat and are left out. The result is the boat reference, or \<open>None\<close> for
  \<open>undefined\<close>, with the environment afterwards. Where no slot is stored under the name,
  \<open>boatEntry\<close> is \<open>undefined\<close> and the assignment to \<open>boatEntry.boatInstance\<close> throws.
\<close>

definition checkoutBoat ::
  "env \<Rightarrow> (boatData \<Rightarrow> vessel option) \<Rightarrow> string \<Rightarrow> string option \<Rightarrow> jsError + (nat option \<times> env)" where
  "checkoutBoat e createFromData tn bn =
     (if \<not> isBoatAvailable e tn bn then Inr (None, e)
      else (case getBoatData e tn of
              None \<Rightarrow> Inr (None, e)
            | Some boatData \<Rightarrow>
                (let bn = orElse bn []
                 in case createBoatInstance createFromData tn bn boatData of
                      Inl err \<Rightarrow> Inl err
                    | Inr boat \<Rightarrow>
                        (case map_of (boatsByType e) tn of
                           None \<Rightarrow> Inl TypeError
                         | Some boatsOfType \<Rightarrow>
                             (case map_of boatsOfType bn of
                                None \<Rightarrow> Inl TypeError
                              | Some boatEntry \<Rightarrow>
                                  (let ref = length (vessels e);
                                       boatEntry = boatEntry\<lparr>boatInstance := Some ref\<rparr>;
                                       boat = boat\<lparr>vesselName := Str bn,
                                                   boatInstanceData := instanceData boatEntry\<rparr>
                                   in Inr (Some ref,
                                        e\<lparr>boatsByType :=
                                             objSet (boatsByType e) tn (objSet boatsOfType bn boatEntry),
                                           vessels := vessels e @ [boat],
                                           notifications := notifications e @ [BoatCheckedOut ref]\<rparr>)))))))"

text \<open>
  \<open>returnBoat(boat)\<close>: the argument is \<open>null\<close> (\<open>None\<close>) or a boat reference. Reading
  \<open>boat.typeName\<close> of \<open>null\<close> throws. A reference always denotes a created boat; the
  test of the index against \<open>vessels\<close> only makes the function total.
\<close>

definition returnBoat :: "env \<Rightarrow> nat option \<Rightarrow> jsError + (bool \<times> env)" where
  "returnBoat e boat =
     (case boat of
        None \<Rightarrow> Inl TypeError
      | Some ref \<Rightarrow>
          (if ref \<ge> length (vessels e) then Inl TypeError
           else
             (let b = vessels e ! ref
              in case map_of (boatsByType e) (propertyKey (vesselTypeName b)) of
                   None \<Rightarrow> Inr (False, e)
                 | Some boatsOfType \<Rightarrow>
                     (case map_of boatsOfType (propertyKey (boatName b)) of
                        None \<Rightarrow> Inr (False, e)
                      | Some boatEntry \<Rightarrow>
                          (if boatInstance boatEntry = Some ref then
                             Inr (True,
                               e\<lparr>boatsByType :=
                                    objSet (boatsByType e) (propertyKey (vesselTypeName b))
                                      (objSet boatsOfType (propertyKey (boatName b))
                                         (boatEntry\<lparr>boatInstance := None\<rparr>)),
                                  notifications := notifications e @ [BoatReturned ref],
                                  vessels := (vessels e)[ref := b\<lparr>destroyed := True\<rparr>]\<rparr>)
                           else Inr (False, e))))))"

text \<open>
  \<open>returnAllBoats()\<close>: for every type and every slot of the type, in the objects' key
  order, \<open>returnBoat\<close> is called with the slot's current \<open>boatInstance\<close>; its result is
  ignored and an exception ends the walk. \<open>returnBoat\<close> adds and removes no key, so the
  lookups of the walk always succeed.
\<close>

fun returnSlots :: "env \<Rightarrow> string \<Rightarrow> string list \<Rightarrow> jsError + env" where
  "returnSlots e tn [] = Inr e"
| "returnSlots e tn (bn # rest) =
     (case map_of (boatsByType e) tn of
        None \<Rightarrow> Inl TypeError
      | Some boatsOfType \<Rightarrow>
          (case map_of boatsOfType bn of
             None \<Rightarrow> Inl TypeError
           | Some boatEntry \<Rightarrow>
               (case returnBoat e (boatInstance boatEntry) of
                  Inl err \<Rightarrow> Inl err
                | Inr (returned, e') \<Rightarrow> returnSlots e' tn rest)))"

fun returnTypes :: "env \<Rightarrow> string list \<Rightarrow> jsError + env" where
  "returnTypes e [] = Inr e"
| "returnTypes e (tn # rest) =
     (case map_of (boatsByType e) tn of
        None \<Rightarrow> Inl TypeError
      | Some boatsOfType \<Rightarrow>
          (case returnSlots e tn (map fst boatsOfType) of
             Inl err \<Rightarrow> Inl err
           | Inr e' \<Rightarrow> returnTypes e' rest))"

definition returnAllBoats :: "env \<Rightarrow> jsError + env" where
  "returnAllBoats e = returnTypes e (map fst (boatsByType e))"


section \<open>Include expansion of JSON data (LBAssets.expandIncludes)\<close>

text \<open>
  A value as \<open>JSON.parse\<close> builds it: a tree without sharing. An object is the list of
  its own properties in enumeration order, one pair per key (as for \<open>objSet\<close>, keys that
  look like array indices are not enumerated first).
\<close>

datatype json =
  JNull
  | JBool bool
  | JNum number
  | JStr string
  | JArr "json list"
  | JObj "(string \<times> json) list"

fun truthyJson :: "json \<Rightarrow> bool" where
  "truthyJson JNull = False"
| "truthyJson (JBool b) = b"
| "truthyJson (JNum n) = (n \<noteq> 0)"
| "truthyJson (JStr s) = (s \<noteq> [])"
| "truthyJson (JArr xs) = True"
| "truthyJson (JObj kvs) = True"

text \<open>
  The string a value becomes as a property key or in a string concatenation
  (\<open>ToString\<close>). \<open>numberToString\<close> is the runtime's conversion of a number, a parameter. An
  array joins its elements with commas, \<open>null\<close> elements giving the empty string.
\<close>

fun toJsString :: "(number \<Rightarrow> string) \<Rightarrow> json \<Rightarrow> string"
  and joinElements :: "(number \<Rightarrow> string) \<Rightarrow> json list \<Rightarrow> string" where
  "toJsString numberToString JNull = ''null''"
| "toJsString numberToString (JBool b) = (if b then ''true'' else ''false'')"
| "toJsString numberToString (JNum n) = numberToString n"
| "toJsString numberToString (JStr s) = s"
| "toJsString numberToString (JArr xs) = joinElements numberToString xs"
| "toJsString numberToString (JObj kvs) = ''[object Object]''"
| "joinElements numberToString [] = []"
| "joinElements numberToString (x # rest) =
     (if x = JNull then [] else toJsString numberToString x) @
     (if rest = [] then [] else '','' @ joinElements numberToString rest)"

text \<open>
  The own enumerable properties \<open>Object.assign\<close> copies from a source: an object's
  properties, an array's elements under their indices, a string's characters under
  their indices, and nothing for a number or a boolean.
\<close>

fun ownProperties :: "json \<Rightarrow> (string \<times> json) list" where
  "ownProperties (JObj kvs) = kvs"
| "ownProperties (JArr xs) = zip (map natToString [0..<length xs]) xs"
| "ownProperties (JStr s) = zip (map natToString [0..<length s]) (map (\<lambda>c. JStr [c]) s)"
| "ownProperties v = []"

definition objectAssign :: "(string \<times> json) list \<Rightarrow> json \<Rightarrow> (string \<times> json) list" where
  "objectAssign target source = foldl (\<lambda>t (k, v). objSet t k v) target (ownProperties source)"

text \<open>
  The members every plain object inherits from \<open>Object.prototype\<close>. Reading one of these
  names from an object that has no own property of the name yields a function (or, for
  \<open>__proto__\<close>, the prototype): a truthy value without own enumerable properties.
\<close>

definition objectPrototypeNames :: "string list" where
  "objectPrototypeNames =
     [''constructor'', ''hasOwnProperty'', ''isPrototypeOf'', ''propertyIsEnumerable'',
      ''toLocaleString'', ''toString'', ''valueOf'', ''__proto__'',
      ''__defineGetter__'', ''__defineSetter__'', ''__lookupGetter__'', ''__lookupSetter__'']"

datatype member = Own json | Inherited | Missing

text \<open>\<open>includables[key]\<close>, for the own properties of the \<open>includables\<close> object.\<close>

definition getMember :: "(string \<times> json) list \<Rightarrow> string \<Rightarrow> member" where
  "getMember includables key =
     (case map_of includables key of
        Some v \<Rightarrow> Own v
      | None \<Rightarrow> if key \<in> set objectPrototypeNames then Inherited else Missing)"

definition notFoundMessage :: "string \<Rightarrow> string" where
  "notFoundMessage name = ''LBAssets.expandIncludes(): includable '' @ name @ '' not found.''"

text \<open>
  The second half of \<open>expandIncludesInData\<close>, for an object whose children have been
  scanned: the \<open>include\<close> property, if truthy, is looked up in \<open>includables\<close>; a truthy
  result is merged with \<open>Object.assign\<close>, anything else is reported on the console. The
  result is the object's properties and the console lines written.
\<close>

definition applyInclude ::
  "(number \<Rightarrow> string) \<Rightarrow> (string \<times> json) list \<Rightarrow> (string \<times> json) list \<Rightarrow>
   (string \<times> json) list \<times> string list" where
  "applyInclude numberToString includables kvs =
     (case map_of kvs ''include'' of
        None \<Rightarrow> (kvs, [])
      | Some inc \<Rightarrow>
          (if truthyJson inc then
             (case getMember includables (toJsString numberToString inc) of
                Own v \<Rightarrow>
                  (if truthyJson v then (objectAssign kvs v, [])
                   else (kvs, [notFoundMessage (toJsString numberToString inc)]))
              | Inherited \<Rightarrow> (kvs, [])
              | Missing \<Rightarrow> (kvs, [notFoundMessage (toJsString numberToString inc)]))
           else (kvs, [])))"

text \<open>
  \<open>expandIncludesInData(includables, data)\<close>, with the updated value and the console
  lines as result. Arrays are objects, so the first branch scans them too, by index; the
  property read \<open>data.include\<close> yields \<open>undefined\<close> on an array, a string, a number or a
  boolean, and throws on \<open>null\<close>. \<open>expandProperties\<close> is the loop over the names of an
  object, \<open>expandElements\<close> the loop over the indices of an array; an exception ends
  either loop.
\<close>

fun expandIncludesInData ::
    "(number \<Rightarrow> string) \<Rightarrow> (string \<times> json) list \<Rightarrow> json \<Rightarrow> jsError + (json \<times> string list)"
  and expandProperties ::
    "(number \<Rightarrow> string) \<Rightarrow> (string \<times> json) list \<Rightarrow> (string \<times> json) list \<Rightarrow>
     jsError + ((string \<times> json) list \<times> string list)"
  and expandElements ::
    "(number \<Rightarrow> string) \<Rightarrow> (string \<times> json) list \<Rightarrow> json list \<Rightarrow>
     jsError + (json list \<times> string list)" where
  "expandIncludesInData numberToString includables JNull = Inl TypeError"
| "expandIncludesInData numberToString includables (JBool b) = Inr (JBool b, [])"
| "expandIncludesInData numberToString includables (JNum n) = Inr (JNum n, [])"
| "expandIncludesInData numberToString includables (JStr s) = Inr (JStr s, [])"
| "expandIncludesInData numberToString includables (JArr xs) =
     (case expandElements numberToString includables xs of
        Inl err \<Rightarrow> Inl err
      | Inr (xs', logged) \<Rightarrow> Inr (JArr xs', logged))"
| "expandIncludesInData numberToString includables (JObj kvs) =
     (case expandProperties numberToString includables kvs of
        Inl err \<Rightarrow> Inl err
      | Inr (kvs', logged) \<Rightarrow>
          (let (kvs'', logged') = applyInclude numberToString includables kvs'
           in Inr (JObj kvs'', logged @ logged')))"
| "expandProperties numberToString includables [] = Inr ([], [])"
| "expandProperties numberToString includables ((subDataName, v) # rest) =
     (if subDataName \<noteq> ''include'' then
        (case expandIncludesInData numberToString includables v of
           Inl err \<Rightarrow> Inl err
         | Inr (v', logged) \<Rightarrow>
             (case expandProperties numberToString includables rest of
                Inl err \<Rightarrow> Inl err
              | Inr (rest', logged') \<Rightarrow> Inr ((subDataName, v') # rest', logged @ logged')))
      else
        (case expandProperties numberToString includables rest of
           Inl err \<Rightarrow> Inl err
         | Inr (rest', logged') \<Rightarrow> Inr ((subDataName, v) # rest', logged')))"
| "expandElements numberToString includables [] = Inr ([], [])"
| "expandElements numberToString includables (v # rest) =
     (case expandIncludesInData numberToString includables v of
        Inl err \<Rightarrow> Inl err
      | Inr (v', logged) \<Rightarrow>
          (case expandElements numberToString includables rest of
             Inl err \<Rightarrow> Inl err
           | Inr (rest', logged') \<Rightarrow> Inr (v' # rest', logged @ logged')))"

text \<open>
  The loop of \<open>expandIncludes\<close> over the top-level names, skipping \<open>includables\<close>.
\<close>

fun expandTopLevel ::
  "(number \<Rightarrow> string) \<Rightarrow> (string \<times> json) list \<Rightarrow> (string \<times> json) list \<Rightarrow>
   jsError + ((string \<times> json) list \<times> string list)" where
  "expandTopLevel numberToString includables [] = Inr ([], [])"
| "expandTopLevel numberToString includables ((subDataName, v) # rest) =
     (if subDataName \<noteq> ''includables'' then
        (case expandIncludesInData numberToString includables v of
           Inl err \<Rightarrow> Inl err
         | Inr (v', logged) \<Rightarrow>
             (case expandTopLevel numberToString includables rest of
                Inl err \<Rightarrow> Inl err
              | Inr (rest', logged') \<Rightarrow> Inr ((subDataName, v') # rest', logged @ logged')))
      else
        (case expandTopLevel numberToString includables rest of
           Inl err \<Rightarrow> Inl err
         | Inr (rest', logged') \<Rightarrow> Inr ((subDataName, v) # rest', logged')))"

text \<open>
  \<open>expandIncludes(data)\<close>. The function's comment takes \<open>includables\<close> to be an object;
  property lookup on a truthy value of another kind (an array, a string, a number,
  \<open>true\<close>) goes through that kind's prototype and is left outside the model, as the
  result \<open>OutsideModel\<close>.
\<close>

datatype expandError = Thrown jsError | OutsideModel

definition expandIncludes ::
  "(number \<Rightarrow> string) \<Rightarrow> json \<Rightarrow> expandError + (json \<times> string list)" where
  "expandIncludes numberToString data =
     (case data of
        JNull \<Rightarrow> Inl (Thrown TypeError)
      | JObj kvs \<Rightarrow>
          (case map_of kvs ''includables'' of
             None \<Rightarrow> Inr (data, [])
           | Some includables \<Rightarrow>
               (if \<not> truthyJson includables then Inr (data, [])
                else (case includables of
                        JObj incs \<Rightarrow>
                          (case expandTopLevel numberToString incs kvs of
                             Inl err \<Rightarrow> Inl (Thrown err)
                           | Inr (kvs', logged) \<Rightarrow> Inr (JObj kvs', logged))
                      | _ \<Rightarrow> Inl OutsideModel)))
      | _ \<Rightarrow> Inr (data, []))"

text \<open>Whether \<open>null\<close> occurs nowhere in a value.\<close>

fun nullFree :: "json \<Rightarrow> bool"
  and nullFreeProperties :: "(string \<times> json) list \<Rightarrow> bool"
  and nullFreeElements :: "json list \<Rightarrow> bool" where
  "nullFree JNull = False"
| "nullFree (JBool b) = True"
| "nullFree (JNum n) = True"
| "nullFree (JStr s) = True"
| "nullFree (JArr xs) = nullFreeElements xs"
| "nullFree (JObj kvs) = nullFreeProperties kvs"
| "nullFreeProperties [] = True"
| "nullFreeProperties ((k, v) # rest) = (nullFree v \<and> nullFreeProperties rest)"
| "nullFreeElements [] = True"
| "nullFreeElements (v # rest) = (nullFree v \<and> nullFreeElements rest)"

text \<open>
  Whether no object in a value has an \<open>include\<close> property. As in the scan, the value of
  an \<open>include\<close> property itself is not looked into.
\<close>

fun includeFree :: "json \<Rightarrow> bool"
  and includeFreeProperties :: "(string \<times> json) list \<Rightarrow> bool"
  and includeFreeElements :: "json list \<Rightarrow> bool" where
  "includeFree JNull = True"
| "includeFree (JBool b) = True"
| "includeFree (JNum n) = True"
| "includeFree (JStr s) = True"
| "includeFree (JArr xs) = includeFreeElements xs"
| "includeFree (JObj kvs) = (map_of kvs ''include'' = None \<and> includeFreeProperties kvs)"
| "includeFreeProperties [] = True"
| "includeFreeProperties ((k, v) # rest) =
     ((if k = ''include'' then True else includeFree v) \<and> includeFreeProperties rest)"
| "includeFreeElements [] = True"
| "includeFreeElements (v # rest) = (includeFree v \<and> includeFreeElements rest)"


section \<open>Transit tracker v2: aligning stops with a shape's vertices (ShapeLayerEntry.stopsUpdated)\<close>

definition MAX_VALUE :: number where
  "MAX_VALUE = (2 ^ 53 - 1) * 2 ^ 971"

definition stopTolerance :: number where
  "stopTolerance = 200"

text \<open>
  The fields \<open>stopsUpdated\<close> rebuilds. \<open>stopIdVertexIndices\<close> is a \<open>Map\<close> in insertion
  order, written with \<open>objSet\<close>; \<open>consoleLog\<close> collects the lines written to the console.
\<close>

record shapeLayerEntry =
  segmentLengths :: "number list"
  stopIdVertexIndices :: "(string \<times> int) list"
  segmentStopIds :: "string list"
  vertexXs :: "number list"
  vertexYs :: "number list"
  consoleLog :: "string list"

text \<open>The variables of the loop over the vertices.\<close>

record vertexWalk =
  lastX :: number
  lastY :: number
  nextStopIndex :: nat
  stopEntry :: "number \<times> number"
  lastDistance :: number

definition distanceToVertex :: "shapeLayerEntry \<Rightarrow> nat \<Rightarrow> number \<Rightarrow> number \<Rightarrow> number" where
  "distanceToVertex s vertexIndex x y =
     (let dx = x - vertexXs s ! vertexIndex;
          dy = y - vertexYs s ! vertexIndex
      in sqrt (dx * dx + dy * dy))"

text \<open>
  \<open>distanceToSegment\<close>; the loop calls it for the segment just pushed, so the two
  vertices and the segment length it reads are present.
\<close>

definition distanceToSegment :: "shapeLayerEntry \<Rightarrow> nat \<Rightarrow> number \<Rightarrow> number \<Rightarrow> number" where
  "distanceToSegment s segmentIndex x y =
     (let segDx = vertexXs s ! (segmentIndex + 1) - vertexXs s ! segmentIndex;
          segDy = vertexYs s ! (segmentIndex + 1) - vertexYs s ! segmentIndex;
          dx = x - vertexXs s ! segmentIndex;
          dy = y - vertexYs s ! segmentIndex;
          segmentLength = segmentLengths s ! segmentIndex;
          u = (if segmentLength > 1
               then (dx * segDx + dy * segDy) / (segmentLength * segmentLength) else -1)
      in if u < 0 then sqrt (dx * dx + dy * dy)
         else if u > 1 then distanceToVertex s (segmentIndex + 1) x y
         else (let xSeg = segDx * u;
                   ySeg = segDy * u;
                   dx = dx - xSeg;
                   dy = dy - ySeg
               in sqrt (dx * dx + dy * dy)))"

text \<open>
  What one pass through the loop body ends with: the next iteration, the \<open>return\<close> after
  a stop entry was not found, or an exception.
\<close>

datatype walkOutcome =
  NextVertex vertexWalk shapeLayerEntry
  | ReturnEarly shapeLayerEntry
  | Throw jsError

text \<open>
  The loop body for vertex \<open>v\<close> with projected coordinates \<open>(x, y)\<close>. \<open>stops\<close> is the
  table of stop entries, giving the projected position of a stop id; \<open>jsonStops\<close> is the
  shape's ordered list of stop ids. Reading \<open>.id\<close> of a missing element of \<open>jsonStops\<close>
  throws.
\<close>

definition walkVertex ::
  "(string \<Rightarrow> (number \<times> number) option) \<Rightarrow> string list \<Rightarrow> nat \<Rightarrow> number \<times> number \<Rightarrow>
   vertexWalk \<Rightarrow> shapeLayerEntry \<Rightarrow> walkOutcome" where
  "walkVertex stops jsonStops v xy w s =
     (let lastStopIndex = length jsonStops - 1;
          x = fst xy;
          y = snd xy;
          s = s\<lparr>vertexXs := vertexXs s @ [x], vertexYs := vertexYs s @ [y]\<rparr>;
          dx = x - lastX w;
          dy = y - lastY w;
          segLength = sqrt (dx * dx + dy * dy)
      in if nextStopIndex w \<ge> length jsonStops then Throw TypeError
         else
           (let s = s\<lparr>segmentLengths := segmentLengths s @ [segLength],
                       segmentStopIds := segmentStopIds s @ [jsonStops ! nextStopIndex w]\<rparr>
            in if nextStopIndex w \<ge> lastStopIndex then NextVertex w s
               else if segLength < 1 then NextVertex w s
               else
                 (let w = w\<lparr>lastX := x, lastY := y\<rparr>;
                      distance = distanceToSegment s (v - 1) (fst (stopEntry w)) (snd (stopEntry w))
                  in if distance > stopTolerance \<and> lastDistance w = MAX_VALUE then NextVertex w s
                     else if \<not> distance > stopTolerance \<and> distance < lastDistance w
                       then NextVertex (w\<lparr>lastDistance := distance\<rparr>) s
                     else
                       (let s = s\<lparr>stopIdVertexIndices :=
                                    objSet (stopIdVertexIndices s) (jsonStops ! nextStopIndex w)
                                      (int v - 1)\<rparr>;
                            w = w\<lparr>nextStopIndex := nextStopIndex w + 1\<rparr>
                        in if nextStopIndex w \<ge> length jsonStops then Throw TypeError
                           else
                             (case stops (jsonStops ! nextStopIndex w) of
                                None \<Rightarrow>
                                  ReturnEarly
                                    (s\<lparr>consoleLog := consoleLog s @
                                         [''ShapeLayerEntry.stopsUpdated() stop entry '' @ [CHR 0x27] @
                                          jsonStops ! nextStopIndex w @ [CHR 0x27] @ '' not found.'']\<rparr>)
                              | Some entry \<Rightarrow>
                                  NextVertex
                                    (w\<lparr>stopEntry := entry, lastDistance := MAX_VALUE\<rparr>)
                                    (s\<lparr>segmentStopIds :=
                                         (segmentStopIds s)[v - 1 := jsonStops ! nextStopIndex w]\<rparr>))))))"

text \<open>The loop \<open>for (let v = 1; v < vertexCount; ++v)\<close> over the remaining vertices.\<close>

fun walkVertices ::
  "(string \<Rightarrow> (number \<times> number) option) \<Rightarrow> string list \<Rightarrow> nat \<Rightarrow> (number \<times> number) list \<Rightarrow>
   vertexWalk \<Rightarrow> shapeLayerEntry \<Rightarrow> walkOutcome" where
  "walkVertices stops jsonStops v [] w s = NextVertex w s"
| "walkVertices stops jsonStops v (xy # rest) w s =
     (case walkVertex stops jsonStops v xy w s of
        NextVertex w' s' \<Rightarrow> walkVertices stops jsonStops (v + 1) rest w' s'
      | ReturnEarly s' \<Rightarrow> ReturnEarly s'
      | Throw err \<Rightarrow> Throw err)"

text \<open>
  \<open>stopsUpdated()\<close>, on the shape's vertices already projected to \<open>x\<close> and \<open>y\<close>
  (\<open>longitudeToX\<close> of the longitude, \<open>latitudeToY\<close> of the latitude). The result holds the
  rebuilt fields, also when the function returned early. The debug dump is disabled in
  the source (\<open>dumpShapeInfo = false\<close>) and is left out.
\<close>

definition stopsUpdated ::
  "(string \<Rightarrow> (number \<times> number) option) \<Rightarrow> (number \<times> number) list \<Rightarrow> string list \<Rightarrow>
   jsError + shapeLayerEntry" where
  "stopsUpdated stops vertices jsonStops =
     (case vertices of
        [] \<Rightarrow> Inl TypeError
      | xy0 # rest \<Rightarrow>
          (let s = \<lparr>segmentLengths = [], stopIdVertexIndices = [], segmentStopIds = [],
                    vertexXs = [fst xy0], vertexYs = [snd xy0], consoleLog = []\<rparr>
           in if jsonStops = [] then Inl TypeError
              else
                (let s = s\<lparr>stopIdVertexIndices := objSet (stopIdVertexIndices s) (jsonStops ! 0) 0\<rparr>;
                     vertexCount = length vertices;
                     lastStopIndex = length jsonStops - 1
                 in if 1 \<ge> length jsonStops then Inl TypeError
                    else
                      (case stops (jsonStops ! 1) of
                         None \<Rightarrow> Inr s
                       | Some entry \<Rightarrow>
                           (case walkVertices stops jsonStops 1 rest
                                   \<lparr>lastX = fst xy0, lastY = snd xy0, nextStopIndex = 1,
                                    stopEntry = entry, lastDistance = MAX_VALUE\<rparr> s of
                              Throw err \<Rightarrow> Inl err
                            | ReturnEarly s \<Rightarrow> Inr s
                            | NextVertex w s \<Rightarrow>
                                (let (w, s) =
                                       (if nextStopIndex w + 1 = lastStopIndex then
                                          (w\<lparr>nextStopIndex := nextStopIndex w + 1\<rparr>,
                                           s\<lparr>stopIdVertexIndices :=
                                                objSet (stopIdVertexIndices s)
                                                  (jsonStops ! nextStopIndex w)
                                                  (int vertexCount - 2)\<rparr>)
                                        else (w, s));
                                     s = s\<lparr>stopIdVertexIndices :=
                                              objSet (stopIdVertexIndices s)
                                                (jsonStops ! lastStopIndex) (int vertexCount - 1)\<rparr>
                                 in if nextStopIndex w \<noteq> lastStopIndex then
                                      Inr (s\<lparr>consoleLog := consoleLog s @
                                              [''ShapeLayerEntry.stopsUpdated() nextStopIndex = '' @
                                               natToString (nextStopIndex w) @ '' lastStopIndex = '' @
                                               natToString lastStopIndex]\<rparr>)
                                    else Inr s))))))"




section \<open>Theorems\<close>

subsection \<open>Prediction message\<close>

lemma truthy_not_Undefined: "truthy v \<Longrightarrow> v \<noteq> Undefined"
  by (cases v) simp_all

text \<open>
  C10. In both versions \<open>getPredictionMsg\<close> never renders a departure time: it returns the
  empty string whenever the arrival time is absent (falsy), whatever the departure time
  is, and otherwise exactly the formatted arrival time followed by \<open>ARR\<close>.
\<close>

theorem getPredictionMsg_arrival_only:
  "getPredictionMsg newDate p =
     (if truthy (arrival_time p)
      then dateToHHMMString (Some (newDate (arrival_time p))) True @ '' ARR''
      else '''')"
  by (auto simp: getPredictionMsg_def arrivalTime_def departureTime_def Let_def
      dest: truthy_not_Undefined)

subsection \<open>Camera zoom\<close>

lemma setZoom_result:
  "setZoom c z = Inr c' \<Longrightarrow>
   zoomScale c' = clamp z (minZoomScale c) (maxZoomScale c) \<and>
   minZoomScale c' = minZoomScale c \<and> maxZoomScale c' = maxZoomScale c \<and>
   (camera c = None \<longrightarrow> c' = c) \<and> (camera c \<noteq> None \<longrightarrow> camera c' \<noteq> None)"
  by (auto simp: setZoom_def Let_def split: option.splits if_splits)

lemma setZoom_with_camera:
  "camera c = Some cam \<Longrightarrow> \<exists>c'. setZoom c z = Inr c'"
  by (simp add: setZoom_def Let_def)

lemma handleMouseWheel_result:
  assumes "handleMouseWheel c d = Inr c'"
    and "minZoomScale c \<le> maxZoomScale c"
    and "minZoomScale c \<le> zoomScale c" and "zoomScale c \<le> maxZoomScale c"
  shows "minZoomScale c' = minZoomScale c \<and> maxZoomScale c' = maxZoomScale c \<and>
         minZoomScale c \<le> zoomScale c' \<and> zoomScale c' \<le> maxZoomScale c \<and>
         (camera c = None \<longrightarrow> c' = c)"
proof (cases "d = 0")
  case True
  with assms show ?thesis by (simp add: handleMouseWheel_def)
next
  case False
  then obtain z where "setZoom c z = Inr c'"
    using assms(1) by (auto simp: handleMouseWheel_def split: if_splits)
  from setZoom_result [OF this] assms(2-4) show ?thesis
    by (auto simp: clamp_def)
qed

lemma handleMouseWheels_in_range:
  assumes "minZoomScale c \<le> maxZoomScale c"
    and "minZoomScale c \<le> zoomScale c" and "zoomScale c \<le> maxZoomScale c"
  shows "minZoomScale (handleMouseWheels c ds) = minZoomScale c \<and>
         maxZoomScale (handleMouseWheels c ds) = maxZoomScale c \<and>
         minZoomScale c \<le> zoomScale (handleMouseWheels c ds) \<and>
         zoomScale (handleMouseWheels c ds) \<le> maxZoomScale c \<and>
         (camera c = None \<longrightarrow> handleMouseWheels c ds = c)"
  using assms
proof (induction ds arbitrary: c)
  case Nil
  then show ?case by simp
next
  case (Cons d ds)
  show ?case
  proof (cases "handleMouseWheel c d")
    case (Inl err)
    with Cons.IH [OF Cons.prems] show ?thesis by simp
  next
    case (Inr c')
    from handleMouseWheel_result [OF Inr Cons.prems]
    have r: "minZoomScale c' = minZoomScale c" "maxZoomScale c' = maxZoomScale c"
      "minZoomScale c \<le> zoomScale c'" "zoomScale c' \<le> maxZoomScale c"
      "camera c = None \<longrightarrow> c' = c"
      by simp_all
    from Cons.IH [of c'] r Cons.prems(1) Inr show ?thesis by auto
  qed
qed

text \<open>
  The unconditional statement fails on the state the constructor leaves: no camera is
  set, so the first up-scroll throws inside \<open>setZoom\<close> and the zoom stays 1 instead of
  going to 0.75.
\<close>

theorem wheel_without_camera_throws:
  "handleMouseWheel newCameraController (-1) = Inl TypeError \<and>
   zoomScale (handleMouseWheels newCameraController [-1]) = 1 \<and>
   zoomScale (handleMouseWheels newCameraController [-1]) \<noteq> 1 * 0.75"
  by (simp add: newCameraController_def handleMouseWheel_def setZoom_def clamp_def Let_def)

text \<open>
  C7, amended. For a controller with the constructor's bounds whose zoom lies within them
  (the constructor's own state, and every state reached from it), after any finite
  sequence of wheel events \<open>zoomScale\<close> is still in \<open>[0.025, 150]\<close>. When a camera is set,
  no wheel event throws, an up-scroll sets the zoom to 0.75 times its value, clamped at
  the floor, which is strictly less while above the floor, and a down-scroll sets it to
  1.5 times its value, clamped at the ceiling, which is strictly more while below the
  ceiling. When no camera is set, wheel events leave the controller as it is.
\<close>

theorem wheel_zoom_clamped:
  assumes "minZoomScale c = 0.025" and "maxZoomScale c = 150"
    and "0.025 \<le> zoomScale c" and "zoomScale c \<le> 150"
  shows "0.025 \<le> zoomScale (handleMouseWheels c ds) \<and>
         zoomScale (handleMouseWheels c ds) \<le> 150 \<and>
         (camera c = None \<longrightarrow> handleMouseWheels c ds = c) \<and>
         (camera c \<noteq> None \<longrightarrow>
            (\<exists>c'. handleMouseWheel c deltaY = Inr c' \<and> camera c' \<noteq> None \<and>
               (deltaY < 0 \<longrightarrow>
                  zoomScale c' = max 0.025 (zoomScale c * 0.75) \<and>
                  (0.025 < zoomScale c \<longrightarrow> zoomScale c' < zoomScale c)) \<and>
               (deltaY > 0 \<longrightarrow>
                  zoomScale c' = min 150 (zoomScale c * 1.5) \<and>
                  (zoomScale c < 150 \<longrightarrow> zoomScale c < zoomScale c'))))"
proof -
  have seq: "0.025 \<le> zoomScale (handleMouseWheels c ds) \<and>
             zoomScale (handleMouseWheels c ds) \<le> 150 \<and>
             (camera c = None \<longrightarrow> handleMouseWheels c ds = c)"
    using handleMouseWheels_in_range [of c ds] assms by simp
  have step: "camera c \<noteq> None \<longrightarrow>
            (\<exists>c'. handleMouseWheel c deltaY = Inr c' \<and> camera c' \<noteq> None \<and>
               (deltaY < 0 \<longrightarrow>
                  zoomScale c' = max 0.025 (zoomScale c * 0.75) \<and>
                  (0.025 < zoomScale c \<longrightarrow> zoomScale c' < zoomScale c)) \<and>
               (deltaY > 0 \<longrightarrow>
                  zoomScale c' = min 150 (zoomScale c * 1.5) \<and>
                  (zoomScale c < 150 \<longrightarrow> zoomScale c < zoomScale c')))"
  proof
    assume "camera c \<noteq> None"
    then obtain cam where cam: "camera c = Some cam" by auto
    show "\<exists>c'. handleMouseWheel c deltaY = Inr c' \<and> camera c' \<noteq> None \<and>
               (deltaY < 0 \<longrightarrow>
                  zoomScale c' = max 0.025 (zoomScale c * 0.75) \<and>
                  (0.025 < zoomScale c \<longrightarrow> zoomScale c' < zoomScale c)) \<and>
               (deltaY > 0 \<longrightarrow>
                  zoomScale c' = min 150 (zoomScale c * 1.5) \<and>
                  (zoomScale c < 150 \<longrightarrow> zoomScale c < zoomScale c'))"
    proof (cases "deltaY < 0")
      case True
      obtain c' where c': "setZoom c (zoomScale c * 0.75) = Inr c'"
        using setZoom_with_camera [OF cam] by blast
      from setZoom_result [OF c'] cam assms True c' show ?thesis
        by (simp add: handleMouseWheel_def clamp_def min_def max_def)
    next
      case False
      show ?thesis
      proof (cases "deltaY > 0")
        case True
        obtain c' where c': "setZoom c (zoomScale c * 1.5) = Inr c'"
          using setZoom_with_camera [OF cam] by blast
        from setZoom_result [OF c'] cam assms True c' show ?thesis
          by (simp add: handleMouseWheel_def clamp_def min_def max_def)
      next
        case notpos: False
        with False cam show ?thesis by (simp add: handleMouseWheel_def)
      qed
    qed
  qed
  from seq step show ?thesis by blast
qed

theorem wheel_zoom_clamped_witness:
  "zoomScale (handleMouseWheels
      (newCameraController\<lparr>camera := Some \<lparr>isPerspectiveCamera = True, zoom = 1, projectionUpdates = 0\<rparr>\<rparr>)
      [-1, -1, 3]) = 27 / 32 \<and>
   (\<exists>c'. handleMouseWheel
      (newCameraController\<lparr>camera := Some \<lparr>isPerspectiveCamera = True, zoom = 1, projectionUpdates = 0\<rparr>\<rparr>)
      (-1) = Inr c' \<and> zoomScale c' = 3 / 4) \<and>
   handleMouseWheels newCameraController [-1, -1, 3] = newCameraController"
  using wheel_zoom_clamped
      [of "newCameraController\<lparr>camera := Some \<lparr>isPerspectiveCamera = True, zoom = 1, projectionUpdates = 0\<rparr>\<rparr>"
          "[-1, -1, 3]" "-1"]
    wheel_zoom_clamped [of newCameraController "[-1, -1, 3]" "-1"]
  by (simp add: newCameraController_def handleMouseWheel_def setZoom_def clamp_def Let_def)


subsection \<open>Propulsor\<close>

lemma applyMatrix4Rotation_scaled:
  "applyMatrix4Rotation (multiplyScalar v s) e = multiplyScalar (applyMatrix4Rotation v e) s"
  by (simp add: applyMatrix4Rotation_def multiplyScalar_def algebra_simps)

lemma vlength_multiplyScalar:
  "0 \<le> s \<Longrightarrow> vlength (multiplyScalar v s) = s * vlength v"
proof -
  assume s: "0 \<le> s"
  have "vx v * s * (vx v * s) + vy v * s * (vy v * s) + vz v * s * (vz v * s)
        = (s * s) * (vx v * vx v + vy v * vy v + vz v * vz v)"
    by (simp add: algebra_simps)
  then show ?thesis
    using s by (simp add: vlength_def multiplyScalar_def real_sqrt_mult)
qed

text \<open>
  C9. A propulsor with \<open>minForce = 0\<close> and \<open>maxForce = 10\<close>: with \<open>forceMag = -5\<close>,
  \<open>updateForce\<close> changes nothing (no world force is applied); with \<open>forceMag = 15\<close> it applies
  exactly one world force, which is 10 times the propulsor's \<open>forceDir\<close> rotated by the world
  transform, so its magnitude is exactly 10 when the rotated direction has unit length.
\<close>

theorem updateForce_clamped:
  assumes "minForce p = 0" and "maxForce p = 10"
  shows "(forceMag p = -5 \<longrightarrow> updateForce p = Inr p) \<and>
         (forceMag p = 15 \<and> forceDir p = Some dir \<longrightarrow>
            updateForce p =
              Inr (p\<lparr>worldForces := worldForces p @
                     [(multiplyScalar (applyMatrix4Rotation dir (worldXfrm p)) 10,
                       applyMatrix4 (Vector3 0 0 0) (worldXfrm p))]\<rparr>) \<and>
            (vlength (applyMatrix4Rotation dir (worldXfrm p)) = 1 \<longrightarrow>
               vlength (multiplyScalar (applyMatrix4Rotation dir (worldXfrm p)) 10) = 10))"
  using assms
  by (simp add: updateForce_def clamp_def Let_def addWorldForce_def
      applyMatrix4Rotation_scaled vlength_multiplyScalar)


theorem updateForce_clamped_witness:
  "updateForce ((newPropulsor (\<lambda>i. if i \<in> {0, 5, 10, 15} then 1 else 0) None None)\<lparr>forceMag := -5\<rparr>)
     = Inr ((newPropulsor (\<lambda>i. if i \<in> {0, 5, 10, 15} then 1 else 0) None None)\<lparr>forceMag := -5\<rparr>) \<and>
   updateForce ((newPropulsor (\<lambda>i. if i \<in> {0, 5, 10, 15} then 1 else 0) None None)\<lparr>forceMag := 15\<rparr>)
     = Inr ((newPropulsor (\<lambda>i. if i \<in> {0, 5, 10, 15} then 1 else 0) None None)
              \<lparr>forceMag := 15, worldForces := [(Vector3 10 0 0, Vector3 0 0 0)]\<rparr>) \<and>
   vlength (Vector3 10 0 0) = 10"
  using
    updateForce_clamped [of "(newPropulsor (\<lambda>i. if i \<in> {0, 5, 10, 15} then 1 else 0) None None)\<lparr>forceMag := -5\<rparr>" "Vector3 1 0 0"]
    updateForce_clamped [of "(newPropulsor (\<lambda>i. if i \<in> {0, 5, 10, 15} then 1 else 0) None None)\<lparr>forceMag := 15\<rparr>" "Vector3 1 0 0"]
  by (simp add: newPropulsor_def applyMatrix4Rotation_def applyMatrix4_def multiplyScalar_def
      vlength_def)

subsection \<open>Multi-load coordinator\<close>

text \<open>
  C1. A session with one registered unit that fails ends with neither callback invoked,
  although the count is back at zero and the state is \<open>LOAD_FAILED\<close>; with one success and
  one failure, \<open>onError\<close> fires when the failure completes first and nothing fires when the
  failure completes last.
\<close>

theorem failed_last_unit_fires_nothing:
  "invoked (loadSession [BeginLoadCalls, RegisterUnit, EndLoadCalls, UnitFailed]) = [] \<and>
   priv_loaderCount (loadSession [BeginLoadCalls, RegisterUnit, EndLoadCalls, UnitFailed]) = 0 \<and>
   loadState (loadSession [BeginLoadCalls, RegisterUnit, EndLoadCalls, UnitFailed]) = LOAD_FAILED \<and>
   invoked (loadSession [BeginLoadCalls, RegisterUnit, RegisterUnit, EndLoadCalls,
                         UnitFailed, UnitLoaded]) = [OnError] \<and>
   invoked (loadSession [BeginLoadCalls, RegisterUnit, RegisterUnit, EndLoadCalls,
                         UnitLoaded, UnitFailed]) = []"
  by (simp add: loadSession_def setupCoordinator_def newMultiLoadCoordinator_def beginLoadCalls_def
      getOnLoadFunction_def getOnErrorFunction_def endLoadCalls_def markLoadCompleted_def
      markLoadFailed_def loaderCount_def finishLoad_def Let_def)

text \<open>
  When no unit fails the coordinator works as documented: for any number of registered
  units that all load after \<open>endLoadCalls\<close>, \<open>onComplete\<close> is invoked exactly once, and
  only when the last unit has loaded; \<open>onError\<close> is never invoked.
\<close>

lemma register_units:
  "foldl loadStep c (replicate n RegisterUnit) =
     c\<lparr>priv_loaderCount := priv_loaderCount c + int n,
       loadState := (if n = 0 then loadState c else LOADING)\<rparr>"
proof (induction n arbitrary: c)
  case 0
  then show ?case by simp
next
  case (Suc n)
  show ?case
    by (simp add: Suc getOnLoadFunction_def getOnErrorFunction_def)
qed

lemma units_loaded_pending:
  assumes "int k < priv_loaderCount c"
  shows "foldl loadStep c (replicate k UnitLoaded) = c\<lparr>priv_loaderCount := priv_loaderCount c - int k\<rparr>"
  using assms
proof (induction k arbitrary: c)
  case 0
  then show ?case by simp
next
  case (Suc k)
  have "loadStep c UnitLoaded = c\<lparr>priv_loaderCount := priv_loaderCount c - 1\<rparr>"
    using Suc.prems by (simp add: markLoadCompleted_def Let_def)
  then show ?case
    using Suc.IH [of "c\<lparr>priv_loaderCount := priv_loaderCount c - 1\<rparr>"] Suc.prems by simp
qed

lemma all_units_loaded_fires_onComplete_once:
  "invoked (loadSession (BeginLoadCalls # replicate n RegisterUnit @ EndLoadCalls #
              replicate n UnitLoaded)) = [OnComplete] \<and>
   loadState (loadSession (BeginLoadCalls # replicate n RegisterUnit @ EndLoadCalls #
              replicate n UnitLoaded)) = LOAD_COMPLETE \<and>
   (k < n \<longrightarrow> invoked (loadSession (BeginLoadCalls # replicate n RegisterUnit @ EndLoadCalls #
              replicate k UnitLoaded)) = [])"
proof (cases n)
  case 0
  then show ?thesis
    by (simp add: loadSession_def setupCoordinator_def newMultiLoadCoordinator_def
        beginLoadCalls_def endLoadCalls_def markLoadCompleted_def finishLoad_def Let_def)
next
  case (Suc m)
  define c1 where "c1 = foldl loadStep (setupCoordinator newMultiLoadCoordinator True True)
      (BeginLoadCalls # replicate n RegisterUnit @ [EndLoadCalls])"
  have c1: "c1 = \<lparr>priv_loaderCount = int n, loadState = LOADING, onComplete = True,
      onError = True, invoked = []\<rparr>"
    using Suc
    by (simp add: c1_def register_units setupCoordinator_def newMultiLoadCoordinator_def
        beginLoadCalls_def endLoadCalls_def markLoadCompleted_def Let_def
        del: replicate.simps)
  have split: "\<And>j. loadSession (BeginLoadCalls # replicate n RegisterUnit @ EndLoadCalls #
              replicate j UnitLoaded) = foldl loadStep c1 (replicate j UnitLoaded)"
    by (simp add: loadSession_def c1_def del: replicate.simps)
  have pending: "\<And>j. j < n \<Longrightarrow>
      foldl loadStep c1 (replicate j UnitLoaded) = c1\<lparr>priv_loaderCount := int n - int j\<rparr>"
    using units_loaded_pending [of _ c1] by (simp add: c1)
  have "replicate n UnitLoaded = replicate m UnitLoaded @ [UnitLoaded]"
    using Suc by (simp add: replicate_append_same)
  then have "foldl loadStep c1 (replicate n UnitLoaded)
        = loadStep (foldl loadStep c1 (replicate m UnitLoaded)) UnitLoaded"
    by (simp del: replicate.simps)
  also have "\<dots> = loadStep (c1\<lparr>priv_loaderCount := int n - int m\<rparr>) UnitLoaded"
    using pending [of m] Suc by simp
  finally have lastStep: "foldl loadStep c1 (replicate n UnitLoaded)
        = loadStep (c1\<lparr>priv_loaderCount := 1\<rparr>) UnitLoaded"
    using Suc by simp
  show ?thesis
    using split lastStep pending
    by (simp add: c1 markLoadCompleted_def finishLoad_def Let_def del: replicate.simps)
qed

subsection \<open>Prediction fetch batches\<close>

text \<open>
  C4. Eleven queued vehicles are put into a single batch, and one fetch is issued for
  eleven trip ids; a batch is closed only once it holds more than ten entries.
\<close>

theorem eleven_trip_ids_in_one_fetch:
  "makeBatches [1, 2, 3, 4, 5, 6, 7, 8, 9, 10, 11 :: nat]
     = [[1, 2, 3, 4, 5, 6, 7, 8, 9, 10, 11]] \<and>
   map length (fst (processTripIdsToFetch natToString [1, 2, 3, 4, 5, 6, 7, 8, 9, 10, 11, 12 :: nat]))
     = [11, 1]"
  by (simp add: makeBatches_def processTripIdsToFetch_def tripIdsPerFetch_def)

text \<open>
  The batching loop keeps every queued entry, in order, and no batch holds more than
  eleven entries.
\<close>

lemma batchStep_invariant:
  assumes "list_all (\<lambda>b. length b \<le> 11) bs"
    and "hasBatch \<longrightarrow> bs \<noteq> [] \<and> length (last bs) \<le> 10"
    and "batchStep (bs, hasBatch) x = (bs', hasBatch')"
  shows "list_all (\<lambda>b. length b \<le> 11) bs' \<and>
         (hasBatch' \<longrightarrow> bs' \<noteq> [] \<and> length (last bs') \<le> 10) \<and>
         concat bs' = concat bs @ [x]"
proof (cases hasBatch)
  case True
  with assms(2) obtain front b where bs: "bs = front @ [b]" and b: "length b \<le> 10"
    by (metis append_butlast_last_id)
  with assms True show ?thesis
    by (auto simp: tripIdsPerFetch_def Let_def)
next
  case False
  with assms show ?thesis
    by (auto simp: tripIdsPerFetch_def Let_def)
qed

lemma batches_invariant:
  assumes "list_all (\<lambda>b. length b \<le> 11) bs"
    and "hasBatch \<longrightarrow> bs \<noteq> [] \<and> length (last bs) \<le> 10"
  shows "list_all (\<lambda>b. length b \<le> 11) (fst (foldl batchStep (bs, hasBatch) queued)) \<and>
         concat (fst (foldl batchStep (bs, hasBatch) queued)) = concat bs @ queued"
  using assms
proof (induction queued arbitrary: bs hasBatch)
  case Nil
  then show ?case by simp
next
  case (Cons x queued)
  obtain bs' hasBatch' where step: "batchStep (bs, hasBatch) x = (bs', hasBatch')"
    by (cases "batchStep (bs, hasBatch) x")
  from batchStep_invariant [OF Cons.prems step]
  have inv: "list_all (\<lambda>b. length b \<le> 11) bs'"
    "hasBatch' \<longrightarrow> bs' \<noteq> [] \<and> length (last bs') \<le> 10"
    "concat bs' = concat bs @ [x]"
    by simp_all
  from Cons.IH [OF inv(1,2)] inv(3) step show ?case by simp
qed

lemma makeBatches_keeps_queue_in_batches_of_eleven:
  "list_all (\<lambda>b. length b \<le> 11) (makeBatches queued) \<and> concat (makeBatches queued) = queued"
  using batches_invariant [of "[]" False queued] by (simp add: makeBatches_def)

subsection \<open>Route categories at startup\<close>

text \<open>
  C6. With nothing in storage and the subway routes Green-B (light rail) and Red (heavy
  rail) fetched, the seeded subway set holds the two route objects and no route id: a
  membership test for the id \<open>Red\<close> fails, whereas the "show all" action on the same
  category yields the set of the two ids.
\<close>

theorem subway_seed_holds_objects_not_ids:
  "activeRouteIds
     (startupCategories (\<lambda>k. None) (\<lambda>v. Unparsable) (\<lambda>rs. rs)
        [\<lparr>routeId = ''Green-B'', shortName = ''B'', longName = ''Green Line B'', routeType = 0\<rparr>]
        [\<lparr>routeId = ''Red'', shortName = [], longName = ''Red Line'', routeType = 1\<rparr>]
        [] [] [] ! CAT_SUBWAY)
     = [ObjectMember \<lparr>routeId = ''Green-B'', shortName = ''B'', longName = ''Green Line B'', routeType = 0\<rparr>,
        ObjectMember \<lparr>routeId = ''Red'', shortName = [], longName = ''Red Line'', routeType = 1\<rparr>] \<and>
   \<not> setHas (activeRouteIds
     (startupCategories (\<lambda>k. None) (\<lambda>v. Unparsable) (\<lambda>rs. rs)
        [\<lparr>routeId = ''Green-B'', shortName = ''B'', longName = ''Green Line B'', routeType = 0\<rparr>]
        [\<lparr>routeId = ''Red'', shortName = [], longName = ''Red Line'', routeType = 1\<rparr>]
        [] [] [] ! CAT_SUBWAY)) (IdMember ''Red'') \<and>
   activeRouteIds (showAllRoutes
     (startupCategories (\<lambda>k. None) (\<lambda>v. Unparsable) (\<lambda>rs. rs)
        [\<lparr>routeId = ''Green-B'', shortName = ''B'', longName = ''Green Line B'', routeType = 0\<rparr>]
        [\<lparr>routeId = ''Red'', shortName = [], longName = ''Red Line'', routeType = 1\<rparr>]
        [] [] [] ! CAT_SUBWAY))
     = [IdMember ''Green-B'', IdMember ''Red'']"
  by (simp add: startupCategories_def uiRouteCategories_def newUIRouteCategory_def
      loadFromStorage_def getStorageKey_def setRouteIdsAndNames_def CAT_SUBWAY_def CAT_BUS_def
      CAT_COMMUTER_RAIL_def CAT_FERRY_def newSet_def setAdd_def setHas_def showAllRoutes_def
      Let_def)

subsection \<open>Boat catalog\<close>

text \<open>
  C2. On a catalog with one boat type and a single slot, \<open>checkoutBoat\<close> called with the
  type name alone never hands out a boat: when the slot carries the type's name (no
  \<open>instances\<close> in the data) the availability check passes for the slot named after the
  type, the boat is created, and the slot is then looked up under the empty name, which
  throws; when the slot comes from an instance named otherwise, the call returns
  \<open>undefined\<close> and leaves the catalog as it was.
\<close>

theorem checkout_by_type_name_alone_fails:
  "isBoatAvailable (loadBoatData newEnv \<lparr>typeName = ''dinghy'', instances = None\<rparr>) ''dinghy'' None \<and>
   checkoutBoat (loadBoatData newEnv \<lparr>typeName = ''dinghy'', instances = None\<rparr>)
     createFromData ''dinghy'' None = Inl TypeError \<and>
   checkoutBoat (loadBoatData newEnv \<lparr>typeName = ''dinghy'', instances = Some [''d1'']\<rparr>)
     createFromData ''dinghy'' None
     = Inr (None, loadBoatData newEnv \<lparr>typeName = ''dinghy'', instances = Some [''d1'']\<rparr>)"
  by (simp add: checkoutBoat_def isBoatAvailable_def getBoatData_def loadBoatData_def
      newEnv_def orElse_def createBoatInstance_def split: option.split)

text \<open>
  C3. On a catalog whose only slot was never checked out, \<open>returnAllBoats\<close> throws: it
  passes the slot's \<open>null\<close> instance to \<open>returnBoat\<close>, which throws on \<open>null\<close>.
\<close>

theorem returnAllBoats_throws_on_free_slot:
  "returnBoat (loadBoatData newEnv \<lparr>typeName = ''dinghy'', instances = None\<rparr>) None
     = Inl TypeError \<and>
   returnAllBoats (loadBoatData newEnv \<lparr>typeName = ''dinghy'', instances = None\<rparr>)
     = Inl TypeError"
  by (simp add: returnAllBoats_def returnBoat_def loadBoatData_def newEnv_def)

text \<open>
  With the slot's own name passed as \<open>boatName\<close>, the catalog hands a boat out once: on
  the one-slot catalog of a type, the first checkout yields a new boat, a second checkout
  yields \<open>undefined\<close> and changes nothing, \<open>returnBoat\<close> of the boat frees the slot and
  destroys the boat, and the next checkout yields another new boat. The created boat's
  \<open>typeName\<close> must be the catalog's type name for \<open>returnBoat\<close> to find the slot.
\<close>

lemma checkout_named_slot_cycle:
  assumes "createFromData \<lparr>typeName = tn, instances = None\<rparr> = Some boat"
    and "vesselTypeName boat = Str tn" and "\<not> destroyed boat"
  shows "\<exists>e1 e2 e3.
           checkoutBoat (loadBoatData newEnv \<lparr>typeName = tn, instances = None\<rparr>)
             createFromData tn (Some tn) = Inr (Some 0, e1) \<and>
           checkoutBoat e1 createFromData tn (Some tn) = Inr (None, e1) \<and>
           returnBoat e1 (Some 0) = Inr (True, e2) \<and>
           destroyed (vessels e2 ! 0) \<and>
           map_of (boatsByType e2) tn = Some [(tn, \<lparr>instanceData = None, boatInstance = None\<rparr>)] \<and>
           checkoutBoat e2 createFromData tn (Some tn) = Inr (Some 1, e3) \<and>
           \<not> destroyed (vessels e3 ! 1)"
  using assms
  by (simp add: checkoutBoat_def isBoatAvailable_def getBoatData_def loadBoatData_def
      newEnv_def orElse_def createBoatInstance_def returnBoat_def Let_def)

lemma checkout_named_slot_cycle_witness:
  "\<exists>e1 e2 e3.
     checkoutBoat (loadBoatData newEnv \<lparr>typeName = ''dinghy'', instances = None\<rparr>)
       (\<lambda>data. Some \<lparr>vesselTypeName = Str (typeName data), boatName = Undefined,
                       vesselName = Undefined, boatInstanceData = None, destroyed = False\<rparr>)
       ''dinghy'' (Some ''dinghy'') = Inr (Some 0, e1) \<and>
     returnBoat e1 (Some 0) = Inr (True, e2) \<and>
     checkoutBoat e2
       (\<lambda>data. Some \<lparr>vesselTypeName = Str (typeName data), boatName = Undefined,
                       vesselName = Undefined, boatInstanceData = None, destroyed = False\<rparr>)
       ''dinghy'' (Some ''dinghy'') = Inr (Some 1, e3)"
  using checkout_named_slot_cycle
    [of "\<lambda>data. Some \<lparr>vesselTypeName = Str (typeName data), boatName = Undefined,
                       vesselName = Undefined, boatInstanceData = None, destroyed = False\<rparr>"
        "''dinghy''"
        "\<lparr>vesselTypeName = Str ''dinghy'', boatName = Undefined,
          vesselName = Undefined, boatInstanceData = None, destroyed = False\<rparr>"]
  by auto

text \<open>
  A boat object that is not the instance of its slot is refused by \<open>returnBoat\<close> with
  \<open>false\<close>, and nothing changes.
\<close>

lemma returnBoat_refuses_other_boat:
  assumes "ref < length (vessels e)"
    and "map_of (boatsByType e) (propertyKey (vesselTypeName (vessels e ! ref))) = Some boatsOfType"
    and "map_of boatsOfType (propertyKey (boatName (vessels e ! ref))) = Some boatEntry"
    and "boatInstance boatEntry \<noteq> Some ref"
  shows "returnBoat e (Some ref) = Inr (False, e)"
  using assms by (simp add: returnBoat_def Let_def)

subsection \<open>Include expansion\<close>

lemma expandProperties_keeps_include:
  "expandProperties ns incs kvs = Inr (kvs', logged) \<Longrightarrow>
   map fst kvs' = map fst kvs \<and> map_of kvs' ''include'' = map_of kvs ''include''"
proof (induction kvs arbitrary: kvs' logged)
  case Nil
  then show ?case by simp
next
  case (Cons kv kvs)
  obtain k v where kv: "kv = (k, v)" by (cases kv)
  show ?case
  proof (cases "k = ''include''")
    case True
    with Cons.prems kv obtain rest' where
      r: "expandProperties ns incs kvs = Inr (rest', logged)" and k': "kvs' = (k, v) # rest'"
      by (auto split: sum.splits)
    from Cons.IH [OF r] k' kv True show ?thesis by simp
  next
    case False
    with Cons.prems kv obtain v' l1 rest' l2 where
      r: "expandProperties ns incs kvs = Inr (rest', l2)" and k': "kvs' = (k, v') # rest'"
      by (auto split: sum.splits)
    from Cons.IH [OF r] k' kv False show ?thesis by simp
  qed
qed

lemma nullFree_no_exception:
  "nullFree v \<Longrightarrow> \<exists>r. expandIncludesInData ns incs v = Inr r"
  "nullFreeProperties kvs \<Longrightarrow> \<exists>r. expandProperties ns incs kvs = Inr r"
  "nullFreeElements xs \<Longrightarrow> \<exists>r. expandElements ns incs xs = Inr r"
proof (induction v and kvs and xs rule: nullFree_nullFreeProperties_nullFreeElements.induct)
  case (5 xs)
  then show ?case by (auto split: sum.splits prod.splits)
next
  case (6 kvs)
  then show ?case by (auto split: sum.splits prod.splits)
next
  case (8 k v rest)
  then obtain r1 r2 where "expandIncludesInData ns incs v = Inr r1"
    and "expandProperties ns incs rest = Inr r2"
    by auto
  then show ?case by (cases r1; cases r2) simp
next
  case (10 v rest)
  then obtain r1 r2 where "expandIncludesInData ns incs v = Inr r1"
    and "expandElements ns incs rest = Inr r2"
    by auto
  then show ?case by (cases r1; cases r2) simp
qed simp_all

lemma includeFree_unchanged:
  "nullFree v \<Longrightarrow> includeFree v \<Longrightarrow> expandIncludesInData ns incs v = Inr (v, [])"
  "nullFreeProperties kvs \<Longrightarrow> includeFreeProperties kvs \<Longrightarrow>
     expandProperties ns incs kvs = Inr (kvs, [])"
  "nullFreeElements xs \<Longrightarrow> includeFreeElements xs \<Longrightarrow>
     expandElements ns incs xs = Inr (xs, [])"
proof (induction v and kvs and xs rule: nullFree_nullFreeProperties_nullFreeElements.induct)
  case (6 kvs)
  then show ?case by (simp add: applyInclude_def)
qed (auto split: if_splits)

lemma absent_include_reported:
  assumes "map_of kvs ''include'' = Some (JStr name)" and "name \<noteq> []"
    and "getMember includables name = Missing"
    and "expandProperties ns includables kvs = Inr (kvs', logged)"
  shows "expandIncludesInData ns includables (JObj kvs)
         = Inr (JObj kvs', logged @ [notFoundMessage name])"
proof -
  from expandProperties_keeps_include [OF assms(4)] assms(1)
  have "map_of kvs' ''include'' = Some (JStr name)" by simp
  with assms(2,3) have "applyInclude ns includables kvs' = (kvs', [notFoundMessage name])"
    by (simp add: applyInclude_def)
  with assms(4) show ?thesis by simp
qed

text \<open>
  The unconditional statement about an absent key fails in two ways. An \<open>include\<close> that
  names \<open>toString\<close>, which \<open>includables\<close> does not have as a property of its own, is found
  through \<open>Object.prototype\<close>: nothing is merged and nothing is logged. And a \<open>null\<close> next
  to an \<open>include\<close> that names an absent key makes the scan throw.
\<close>

theorem expandIncludes_inherited_name_and_null:
  "expandIncludes (\<lambda>n. [])
     (JObj [(''includables'', JObj [(''t'', JObj [(''a'', JNum 1)])]),
            (''x'', JObj [(''include'', JStr ''toString''), (''c'', JNum 3)])])
   = Inr (JObj [(''includables'', JObj [(''t'', JObj [(''a'', JNum 1)])]),
                (''x'', JObj [(''include'', JStr ''toString''), (''c'', JNum 3)])], []) \<and>
   map_of [(''t'', JObj [(''a'', JNum 1)])] ''toString'' = None \<and>
   expandIncludes (\<lambda>n. [])
     (JObj [(''includables'', JObj [(''t'', JObj [(''a'', JNum 1)])]),
            (''x'', JObj [(''include'', JStr ''u''), (''c'', JNull)])])
   = Inl (Thrown TypeError)"
  by (simp add: expandIncludes_def applyInclude_def getMember_def objectPrototypeNames_def)

text \<open>
  C8, amended. On the data \<open>{includables: {t: {a:1, b:2}}, x: {include: "t", c: 3}}\<close>,
  \<open>expandIncludes\<close> gives \<open>x\<close> the properties \<open>a:1\<close>, \<open>b:2\<close> next to \<open>c:3\<close> and keeps
  \<open>include: "t"\<close>, logging nothing. On data \<open>{includables: I, x: O}\<close> where \<open>I\<close> is an
  object and \<open>O\<close> is an object without \<open>null\<close> in its properties, whose \<open>include\<close> is a
  non-empty string that the lookup in \<open>I\<close> does not find (no property of \<open>I\<close>, and not a
  member inherited from \<open>Object.prototype\<close>), \<open>expandIncludes\<close> throws nothing: it returns
  the data with \<open>O\<close> replaced by the scan of its children, with the same keys and the same
  \<open>include\<close>, and the last console line is the "not found" message naming the key. When
  no object among the children has an \<open>include\<close>, the data is returned as it was and that
  message is the only console line.
\<close>

theorem expandIncludes_merges_and_reports_absent:
  assumes "xname \<noteq> ''includables''"
    and "map_of kvs ''include'' = Some (JStr name)" and "name \<noteq> []"
    and "getMember includables name = Missing"
    and "nullFreeProperties kvs"
  shows "expandIncludes ns
           (JObj [(''includables'', JObj [(''t'', JObj [(''a'', JNum 1), (''b'', JNum 2)])]),
                  (''x'', JObj [(''include'', JStr ''t''), (''c'', JNum 3)])])
         = Inr (JObj [(''includables'', JObj [(''t'', JObj [(''a'', JNum 1), (''b'', JNum 2)])]),
                      (''x'', JObj [(''include'', JStr ''t''), (''c'', JNum 3),
                                    (''a'', JNum 1), (''b'', JNum 2)])], []) \<and>
         (\<exists>kvs' logged.
            expandProperties ns includables kvs = Inr (kvs', logged) \<and>
            expandIncludes ns (JObj [(''includables'', JObj includables), (xname, JObj kvs)])
              = Inr (JObj [(''includables'', JObj includables), (xname, JObj kvs')],
                     logged @ [notFoundMessage name]) \<and>
            map fst kvs' = map fst kvs \<and>
            map_of kvs' ''include'' = Some (JStr name)) \<and>
         (includeFreeProperties kvs \<longrightarrow>
            expandIncludes ns (JObj [(''includables'', JObj includables), (xname, JObj kvs)])
              = Inr (JObj [(''includables'', JObj includables), (xname, JObj kvs)],
                     [notFoundMessage name]))"
proof -
  have example: "expandIncludes ns
           (JObj [(''includables'', JObj [(''t'', JObj [(''a'', JNum 1), (''b'', JNum 2)])]),
                  (''x'', JObj [(''include'', JStr ''t''), (''c'', JNum 3)])])
         = Inr (JObj [(''includables'', JObj [(''t'', JObj [(''a'', JNum 1), (''b'', JNum 2)])]),
                      (''x'', JObj [(''include'', JStr ''t''), (''c'', JNum 3),
                                    (''a'', JNum 1), (''b'', JNum 2)])], [])"
    by (simp add: expandIncludes_def applyInclude_def getMember_def objectAssign_def)
  obtain kvs' logged where scan: "expandProperties ns includables kvs = Inr (kvs', logged)"
    using nullFree_no_exception(2) [OF assms(5), of ns includables] by auto
  have top: "\<And>kvs'' logged''.
      expandIncludesInData ns includables (JObj kvs) = Inr (JObj kvs'', logged'') \<Longrightarrow>
      expandIncludes ns (JObj [(''includables'', JObj includables), (xname, JObj kvs)])
        = Inr (JObj [(''includables'', JObj includables), (xname, JObj kvs'')], logged'')"
    using assms(1) by (simp add: expandIncludes_def)
  have obj: "expandIncludesInData ns includables (JObj kvs)
      = Inr (JObj kvs', logged @ [notFoundMessage name])"
    using absent_include_reported [OF assms(2,3,4) scan] .
  have keep: "map fst kvs' = map fst kvs" "map_of kvs' ''include'' = Some (JStr name)"
    using expandProperties_keeps_include [OF scan] assms(2) by simp_all
  have absent: "\<exists>kvs' logged.
            expandProperties ns includables kvs = Inr (kvs', logged) \<and>
            expandIncludes ns (JObj [(''includables'', JObj includables), (xname, JObj kvs)])
              = Inr (JObj [(''includables'', JObj includables), (xname, JObj kvs')],
                     logged @ [notFoundMessage name]) \<and>
            map fst kvs' = map fst kvs \<and>
            map_of kvs' ''include'' = Some (JStr name)"
    using scan top [OF obj] keep by blast
  have plain: "includeFreeProperties kvs \<longrightarrow>
            expandIncludes ns (JObj [(''includables'', JObj includables), (xname, JObj kvs)])
              = Inr (JObj [(''includables'', JObj includables), (xname, JObj kvs)],
                     [notFoundMessage name])"
  proof
    assume "includeFreeProperties kvs"
    from includeFree_unchanged(2) [OF assms(5) this, of ns includables] scan
    have "kvs' = kvs" "logged = []" by simp_all
    with top [OF obj] show "expandIncludes ns
        (JObj [(''includables'', JObj includables), (xname, JObj kvs)])
        = Inr (JObj [(''includables'', JObj includables), (xname, JObj kvs)],
               [notFoundMessage name])"
      by simp
  qed
  from example absent plain show ?thesis by blast
qed

theorem expandIncludes_merges_and_reports_absent_witness:
  "expandIncludes (\<lambda>n. [])
     (JObj [(''includables'', JObj [(''t'', JObj [(''a'', JNum 1)])]),
            (''x'', JObj [(''include'', JStr ''u''), (''c'', JNum 3)])])
   = Inr (JObj [(''includables'', JObj [(''t'', JObj [(''a'', JNum 1)])]),
                (''x'', JObj [(''include'', JStr ''u''), (''c'', JNum 3)])],
          [notFoundMessage ''u'']) \<and>
   notFoundMessage ''u'' = ''LBAssets.expandIncludes(): includable u not found.''"
  using expandIncludes_merges_and_reports_absent
    [of "''x''" "[(''include'', JStr ''u''), (''c'', JNum 3)]" "''u''"
        "[(''t'', JObj [(''a'', JNum 1)])]" "\<lambda>n. []"]
  by (simp add: getMember_def objectPrototypeNames_def notFoundMessage_def)


subsection \<open>Stops along a shape\<close>



























end
